theory Spec2Isabelle
  imports Main "HOL-Library.AList" "HOL-Library.Char_ord" "HOL-Library.List_Lexorder"
begin

section \<open>Strings\<close>

text \<open>
  Format names, file names and messages are Python \<open>str\<close> values. They are modelled as
  \<open>string\<close>, a list of bytes holding the UTF-8 encoding of the text. The lexicographic
  order on byte lists is the order of Python's string comparison, which \<open>sorted\<close> uses.

  \<open>str.lower()\<close> and \<open>str.upper()\<close> map a string character by character. On ASCII
  the letters move between \<open>A\<close> to \<open>Z\<close> and \<open>a\<close> to \<open>z\<close>. For the characters from
  U+0080 to U+017F (Latin-1 Supplement and Latin Extended-A, two bytes each) the two
  tables below list every character that the mapping changes, with the bytes of the
  result, as Python's Unicode database has them: the lowercase of U+0130 is two
  characters, \<open>i\<close> and the combining dot U+0307, and the uppercase of the dotless i
  U+0131 is the ASCII letter \<open>I\<close>. Bytes of characters beyond U+017F are left as they
  are; \<open>modelled\<close> below is the text for which \<open>lower\<close> and \<open>upper\<close> are Python's.
\<close>

definition lower_char :: "char \<Rightarrow> char" where
  "lower_char c =
     (if CHR ''A'' \<le> c \<and> c \<le> CHR ''Z'' then char_of (of_char c + (32::nat)) else c)"


definition lower_table :: "((char \<times> char) \<times> string) list" where
  "lower_table =
     [((CHR 0xC3, CHR 0x80), [CHR 0xC3, CHR 0xA0]), ((CHR 0xC3, CHR 0x81), [CHR 0xC3, CHR 0xA1]),
      ((CHR 0xC3, CHR 0x82), [CHR 0xC3, CHR 0xA2]), ((CHR 0xC3, CHR 0x83), [CHR 0xC3, CHR 0xA3]),
      ((CHR 0xC3, CHR 0x84), [CHR 0xC3, CHR 0xA4]), ((CHR 0xC3, CHR 0x85), [CHR 0xC3, CHR 0xA5]),
      ((CHR 0xC3, CHR 0x86), [CHR 0xC3, CHR 0xA6]), ((CHR 0xC3, CHR 0x87), [CHR 0xC3, CHR 0xA7]),
      ((CHR 0xC3, CHR 0x88), [CHR 0xC3, CHR 0xA8]), ((CHR 0xC3, CHR 0x89), [CHR 0xC3, CHR 0xA9]),
      ((CHR 0xC3, CHR 0x8A), [CHR 0xC3, CHR 0xAA]), ((CHR 0xC3, CHR 0x8B), [CHR 0xC3, CHR 0xAB]),
      ((CHR 0xC3, CHR 0x8C), [CHR 0xC3, CHR 0xAC]), ((CHR 0xC3, CHR 0x8D), [CHR 0xC3, CHR 0xAD]),
      ((CHR 0xC3, CHR 0x8E), [CHR 0xC3, CHR 0xAE]), ((CHR 0xC3, CHR 0x8F), [CHR 0xC3, CHR 0xAF]),
      ((CHR 0xC3, CHR 0x90), [CHR 0xC3, CHR 0xB0]), ((CHR 0xC3, CHR 0x91), [CHR 0xC3, CHR 0xB1]),
      ((CHR 0xC3, CHR 0x92), [CHR 0xC3, CHR 0xB2]), ((CHR 0xC3, CHR 0x93), [CHR 0xC3, CHR 0xB3]),
      ((CHR 0xC3, CHR 0x94), [CHR 0xC3, CHR 0xB4]), ((CHR 0xC3, CHR 0x95), [CHR 0xC3, CHR 0xB5]),
      ((CHR 0xC3, CHR 0x96), [CHR 0xC3, CHR 0xB6]), ((CHR 0xC3, CHR 0x98), [CHR 0xC3, CHR 0xB8]),
      ((CHR 0xC3, CHR 0x99), [CHR 0xC3, CHR 0xB9]), ((CHR 0xC3, CHR 0x9A), [CHR 0xC3, CHR 0xBA]),
      ((CHR 0xC3, CHR 0x9B), [CHR 0xC3, CHR 0xBB]), ((CHR 0xC3, CHR 0x9C), [CHR 0xC3, CHR 0xBC]),
      ((CHR 0xC3, CHR 0x9D), [CHR 0xC3, CHR 0xBD]), ((CHR 0xC3, CHR 0x9E), [CHR 0xC3, CHR 0xBE]),
      ((CHR 0xC4, CHR 0x80), [CHR 0xC4, CHR 0x81]), ((CHR 0xC4, CHR 0x82), [CHR 0xC4, CHR 0x83]),
      ((CHR 0xC4, CHR 0x84), [CHR 0xC4, CHR 0x85]), ((CHR 0xC4, CHR 0x86), [CHR 0xC4, CHR 0x87]),
      ((CHR 0xC4, CHR 0x88), [CHR 0xC4, CHR 0x89]), ((CHR 0xC4, CHR 0x8A), [CHR 0xC4, CHR 0x8B]),
      ((CHR 0xC4, CHR 0x8C), [CHR 0xC4, CHR 0x8D]), ((CHR 0xC4, CHR 0x8E), [CHR 0xC4, CHR 0x8F]),
      ((CHR 0xC4, CHR 0x90), [CHR 0xC4, CHR 0x91]), ((CHR 0xC4, CHR 0x92), [CHR 0xC4, CHR 0x93]),
      ((CHR 0xC4, CHR 0x94), [CHR 0xC4, CHR 0x95]), ((CHR 0xC4, CHR 0x96), [CHR 0xC4, CHR 0x97]),
      ((CHR 0xC4, CHR 0x98), [CHR 0xC4, CHR 0x99]), ((CHR 0xC4, CHR 0x9A), [CHR 0xC4, CHR 0x9B]),
      ((CHR 0xC4, CHR 0x9C), [CHR 0xC4, CHR 0x9D]), ((CHR 0xC4, CHR 0x9E), [CHR 0xC4, CHR 0x9F]),
      ((CHR 0xC4, CHR 0xA0), [CHR 0xC4, CHR 0xA1]), ((CHR 0xC4, CHR 0xA2), [CHR 0xC4, CHR 0xA3]),
      ((CHR 0xC4, CHR 0xA4), [CHR 0xC4, CHR 0xA5]), ((CHR 0xC4, CHR 0xA6), [CHR 0xC4, CHR 0xA7]),
      ((CHR 0xC4, CHR 0xA8), [CHR 0xC4, CHR 0xA9]), ((CHR 0xC4, CHR 0xAA), [CHR 0xC4, CHR 0xAB]),
      ((CHR 0xC4, CHR 0xAC), [CHR 0xC4, CHR 0xAD]), ((CHR 0xC4, CHR 0xAE), [CHR 0xC4, CHR 0xAF]),
      ((CHR 0xC4, CHR 0xB0), [CHR 0x69, CHR 0xCC, CHR 0x87]), ((CHR 0xC4, CHR 0xB2), [CHR 0xC4, CHR 0xB3]),
      ((CHR 0xC4, CHR 0xB4), [CHR 0xC4, CHR 0xB5]), ((CHR 0xC4, CHR 0xB6), [CHR 0xC4, CHR 0xB7]),
      ((CHR 0xC4, CHR 0xB9), [CHR 0xC4, CHR 0xBA]), ((CHR 0xC4, CHR 0xBB), [CHR 0xC4, CHR 0xBC]),
      ((CHR 0xC4, CHR 0xBD), [CHR 0xC4, CHR 0xBE]), ((CHR 0xC4, CHR 0xBF), [CHR 0xC5, CHR 0x80]),
      ((CHR 0xC5, CHR 0x81), [CHR 0xC5, CHR 0x82]), ((CHR 0xC5, CHR 0x83), [CHR 0xC5, CHR 0x84]),
      ((CHR 0xC5, CHR 0x85), [CHR 0xC5, CHR 0x86]), ((CHR 0xC5, CHR 0x87), [CHR 0xC5, CHR 0x88]),
      ((CHR 0xC5, CHR 0x8A), [CHR 0xC5, CHR 0x8B]), ((CHR 0xC5, CHR 0x8C), [CHR 0xC5, CHR 0x8D]),
      ((CHR 0xC5, CHR 0x8E), [CHR 0xC5, CHR 0x8F]), ((CHR 0xC5, CHR 0x90), [CHR 0xC5, CHR 0x91]),
      ((CHR 0xC5, CHR 0x92), [CHR 0xC5, CHR 0x93]), ((CHR 0xC5, CHR 0x94), [CHR 0xC5, CHR 0x95]),
      ((CHR 0xC5, CHR 0x96), [CHR 0xC5, CHR 0x97]), ((CHR 0xC5, CHR 0x98), [CHR 0xC5, CHR 0x99]),
      ((CHR 0xC5, CHR 0x9A), [CHR 0xC5, CHR 0x9B]), ((CHR 0xC5, CHR 0x9C), [CHR 0xC5, CHR 0x9D]),
      ((CHR 0xC5, CHR 0x9E), [CHR 0xC5, CHR 0x9F]), ((CHR 0xC5, CHR 0xA0), [CHR 0xC5, CHR 0xA1]),
      ((CHR 0xC5, CHR 0xA2), [CHR 0xC5, CHR 0xA3]), ((CHR 0xC5, CHR 0xA4), [CHR 0xC5, CHR 0xA5]),
      ((CHR 0xC5, CHR 0xA6), [CHR 0xC5, CHR 0xA7]), ((CHR 0xC5, CHR 0xA8), [CHR 0xC5, CHR 0xA9]),
      ((CHR 0xC5, CHR 0xAA), [CHR 0xC5, CHR 0xAB]), ((CHR 0xC5, CHR 0xAC), [CHR 0xC5, CHR 0xAD]),
      ((CHR 0xC5, CHR 0xAE), [CHR 0xC5, CHR 0xAF]), ((CHR 0xC5, CHR 0xB0), [CHR 0xC5, CHR 0xB1]),
      ((CHR 0xC5, CHR 0xB2), [CHR 0xC5, CHR 0xB3]), ((CHR 0xC5, CHR 0xB4), [CHR 0xC5, CHR 0xB5]),
      ((CHR 0xC5, CHR 0xB6), [CHR 0xC5, CHR 0xB7]), ((CHR 0xC5, CHR 0xB8), [CHR 0xC3, CHR 0xBF]),
      ((CHR 0xC5, CHR 0xB9), [CHR 0xC5, CHR 0xBA]), ((CHR 0xC5, CHR 0xBB), [CHR 0xC5, CHR 0xBC]),
      ((CHR 0xC5, CHR 0xBD), [CHR 0xC5, CHR 0xBE])]"


fun lower :: "string \<Rightarrow> string" where
  "lower [] = []"
| "lower [c] = [lower_char c]"
| "lower (c # d # cs) =
     (if c < CHR 0x80 then lower_char c # lower (d # cs)
      else case map_of lower_table (c, d) of
             Some out \<Rightarrow> out @ lower cs
           | None \<Rightarrow> c # lower (d # cs))"




text \<open>\<open>s.lstrip(".")\<close>: every leading dot is removed.\<close>

definition lstrip_dot :: "string \<Rightarrow> string" where
  "lstrip_dot s = dropWhile (\<lambda>c. c = CHR ''.'') s"

text \<open>The arrow U+2192 that the messages of \<open>registry.py\<close> contain, in UTF-8.\<close>

definition arrow :: string where
  "arrow = [CHR 0xE2, CHR 0x86, CHR 0x92]"

section \<open>registry.py: media types and the extension catalog\<close>

datatype MediaType = IMAGE | VIDEO | AUDIO | DOCUMENT

text \<open>The \<open>.value\<close> of each member of the enum.\<close>

fun MediaType_value :: "MediaType \<Rightarrow> string" where
  "MediaType_value IMAGE = ''image''"
| "MediaType_value VIDEO = ''video''"
| "MediaType_value AUDIO = ''audio''"
| "MediaType_value DOCUMENT = ''document''"

text \<open>
  \<open>EXTENSION_MEDIA_TYPE\<close> is a dict literal; its keys are distinct, so the association
  list read with \<open>map_of\<close> is \<open>dict.get\<close>.
\<close>

definition EXTENSION_MEDIA_TYPE :: "(string \<times> MediaType) list" where
  "EXTENSION_MEDIA_TYPE =
     [(''heic'', IMAGE), (''jpg'', IMAGE), (''jpeg'', IMAGE), (''png'', IMAGE),
      (''webp'', IMAGE), (''gif'', IMAGE), (''bmp'', IMAGE), (''tiff'', IMAGE),
      (''mp4'', VIDEO), (''avi'', VIDEO), (''mkv'', VIDEO), (''mov'', VIDEO),
      (''wmv'', VIDEO), (''flv'', VIDEO),
      (''mp3'', AUDIO), (''wav'', AUDIO), (''flac'', AUDIO), (''aac'', AUDIO),
      (''ogg'', AUDIO), (''m4a'', AUDIO),
      (''pdf'', DOCUMENT), (''docx'', DOCUMENT), (''txt'', DOCUMENT)]"

section \<open>registry.py: routes and the registry\<close>

text \<open>The four converter classes a route can refer to.\<close>

datatype converter = ImageConverter | VideoConverter | AudioConverter | DocumentConverter

text \<open>
  \<open>ConversionRoute\<close> is a frozen dataclass: its fields cannot be assigned after
  construction, and \<open>==\<close> compares the four fields, as equality of records does.
\<close>

record ConversionRoute =
  source_format :: string
  target_format :: string
  converter_class :: converter
  lossy :: bool

text \<open>
  Exceptions are values. \<open>get_route\<close> raises \<open>ValueError\<close> with one of two messages;
  the converters and the file system raise the others.
\<close>

datatype error = ValueError string | OSError string | OtherError string

text \<open>
  The registry holds one dict, \<open>_routes\<close>, keyed by the pair of formats. A Python dict
  keeps its keys in insertion order and an assignment to a key that is present replaces
  the value in place; \<open>AList.update\<close> does the same on an association list.
\<close>

record ConversionRegistry =
  routes :: "((string \<times> string) \<times> ConversionRoute) list"

definition ConversionRegistry_init :: ConversionRegistry where
  "ConversionRegistry_init = \<lparr>routes = []\<rparr>"

definition register :: "ConversionRegistry \<Rightarrow> ConversionRoute \<Rightarrow> ConversionRegistry" where
  "register self route =
     (let key = (lower (source_format route), lower (target_format route))
      in self\<lparr>routes := AList.update key route (routes self)\<rparr>)"

definition is_valid :: "ConversionRegistry \<Rightarrow> string \<Rightarrow> string \<Rightarrow> bool" where
  "is_valid self src_fmt tgt_fmt =
     ((lower src_fmt, lower tgt_fmt) \<in> set (map fst (routes self)))"

text \<open>The two messages of \<open>get_route\<close>, as the f-strings build them.\<close>

definition cross_domain_message ::
  "string \<Rightarrow> MediaType \<Rightarrow> string \<Rightarrow> MediaType \<Rightarrow> string" where
  "cross_domain_message src_fmt src_type tgt_fmt tgt_type =
     ''Cross-domain conversion not supported: '' @
     src_fmt @ '' ('' @ MediaType_value src_type @ '') '' @ arrow @ '' '' @
     tgt_fmt @ '' ('' @ MediaType_value tgt_type @ '')''"

definition no_route_message :: "string \<Rightarrow> string \<Rightarrow> string" where
  "no_route_message src_fmt tgt_fmt =
     ''No conversion route registered for: '' @
     src_fmt @ '' '' @ arrow @ '' '' @ tgt_fmt"

text \<open>
  \<open>get_route\<close>: the key is looked up first; only when it is absent are the two media
  types read from the catalog. A member of \<open>MediaType\<close> is truthy, so
  \<open>src_type and tgt_type\<close> tests that neither is \<open>None\<close>.
\<close>

definition get_route ::
  "ConversionRegistry \<Rightarrow> string \<Rightarrow> string \<Rightarrow> error + ConversionRoute" where
  "get_route self src_fmt tgt_fmt =
     (let key = (lower src_fmt, lower tgt_fmt)
      in case map_of (routes self) key of
           None \<Rightarrow>
             (let src_type = map_of EXTENSION_MEDIA_TYPE (lower src_fmt);
                  tgt_type = map_of EXTENSION_MEDIA_TYPE (lower tgt_fmt)
              in case (src_type, tgt_type) of
                   (Some a, Some b) \<Rightarrow>
                     if a \<noteq> b
                     then Inl (ValueError (cross_domain_message src_fmt a tgt_fmt b))
                     else Inl (ValueError (no_route_message src_fmt tgt_fmt))
                 | _ \<Rightarrow> Inl (ValueError (no_route_message src_fmt tgt_fmt)))
         | Some route \<Rightarrow> Inr route)"

text \<open>
  \<open>get_valid_targets\<close>: the generator walks the keys of the dict and keeps the targets
  whose source is the lowered argument; \<open>sorted\<close> orders them.
\<close>

definition get_valid_targets :: "ConversionRegistry \<Rightarrow> string \<Rightarrow> string list" where
  "get_valid_targets self src_fmt =
     (let src = lower src_fmt
      in sort (map snd (filter (\<lambda>(source, target). source = src) (map fst (routes self)))))"

definition get_media_type :: "ConversionRegistry \<Rightarrow> string \<Rightarrow> MediaType option" where
  "get_media_type self extension = map_of EXTENSION_MEDIA_TYPE (lower extension)"

subsection \<open>build_default_registry\<close>

definition image_routes :: "(string \<times> string \<times> bool) list" where
  "image_routes =
     [(''heic'', ''jpg'', True), (''heic'', ''png'', False),
      (''jpg'', ''png'', False), (''jpg'', ''webp'', True),
      (''png'', ''jpg'', True), (''png'', ''webp'', False), (''png'', ''gif'', False),
      (''webp'', ''jpg'', True), (''webp'', ''png'', False),
      (''gif'', ''png'', False),
      (''bmp'', ''jpg'', True), (''bmp'', ''png'', False),
      (''tiff'', ''jpg'', True), (''tiff'', ''png'', False)]"

definition video_routes :: "(string \<times> string \<times> bool) list" where
  "video_routes =
     [(''mp4'', ''avi'', False), (''mp4'', ''mkv'', False), (''mp4'', ''mov'', False),
      (''avi'', ''mp4'', False), (''avi'', ''mkv'', False),
      (''mkv'', ''mp4'', False), (''mkv'', ''avi'', False),
      (''mov'', ''mp4'', False), (''mov'', ''avi'', False)]"

definition audio_routes :: "(string \<times> string \<times> bool) list" where
  "audio_routes =
     [(''mp3'', ''wav'', False), (''mp3'', ''flac'', False),
      (''wav'', ''mp3'', True), (''wav'', ''flac'', False),
      (''flac'', ''mp3'', True), (''flac'', ''wav'', False),
      (''aac'', ''mp3'', True), (''aac'', ''wav'', False),
      (''m4a'', ''mp3'', True), (''m4a'', ''wav'', False)]"

definition document_routes :: "(string \<times> string \<times> bool) list" where
  "document_routes = [(''pdf'', ''txt'', False), (''docx'', ''txt'', False)]"

text \<open>One \<open>for\<close> loop of \<open>build_default_registry\<close>: every triple is registered in turn.\<close>

fun register_all ::
  "converter \<Rightarrow> (string \<times> string \<times> bool) list \<Rightarrow> ConversionRegistry \<Rightarrow> ConversionRegistry" where
  "register_all c [] registry = registry"
| "register_all c ((src, tgt, is_lossy) # rest) registry =
     register_all c rest
       (register registry
          \<lparr>source_format = src, target_format = tgt, converter_class = c, lossy = is_lossy\<rparr>)"

definition build_default_registry :: ConversionRegistry where
  "build_default_registry =
     register_all DocumentConverter document_routes
       (register_all AudioConverter audio_routes
          (register_all VideoConverter video_routes
             (register_all ImageConverter image_routes ConversionRegistry_init)))"

text \<open>The module-level singleton.\<close>

definition registry :: ConversionRegistry where
  "registry = build_default_registry"

section \<open>logger.py: the session log\<close>

text \<open>
  A \<open>pathlib.Path\<close> as far as the program reads it: the directory, and the stem and the
  suffix of the final component. \<open>suffix\<close> is what \<open>Path.suffix\<close> returns: empty, or
  the last dot of the name and what follows it.
\<close>

record path =
  parent :: string
  stem :: string
  suffix :: string

definition path_name :: "path \<Rightarrow> string" where
  "path_name p = stem p @ suffix p"

datatype ConversionStatus = SUCCESS | SKIPPED | DELETED | ERROR

text \<open>The \<open>_stats\<close> dict of the progress screen, with its three keys.\<close>

record Stats =
  success :: int
  skipped :: int
  errors :: int

text \<open>
  Every method of \<open>ConversionLogger\<close> appends to the log file. A record keeps the
  arguments of the call that wrote it: \<open>log_conversion(source, destination,
  original_kept)\<close>, \<open>log_skip(source, reason)\<close>, \<open>log_delete(source)\<close>,
  \<open>log_error(source, error)\<close>, \<open>log_summary(stats)\<close>, and the banner that
  \<open>__init__\<close> writes.
\<close>

datatype log_record =
    SessionStart
  | LogConversion path path bool
  | LogSkip path string
  | LogDelete path
  | LogError path error
  | LogSummary Stats

text \<open>The \<open>ConversionStatus\<close> whose value starts the line; banner and summary have none.\<close>

fun status :: "log_record \<Rightarrow> ConversionStatus option" where
  "status SessionStart = None"
| "status (LogConversion source destination original_kept) = Some SUCCESS"
| "status (LogSkip source reason) = Some SKIPPED"
| "status (LogDelete source) = Some DELETED"
| "status (LogError source err) = Some ERROR"
| "status (LogSummary st) = None"

type_synonym ConversionLogger = "log_record list"

definition ConversionLogger_init :: ConversionLogger where
  "ConversionLogger_init = [SessionStart]"

definition log_conversion :: "ConversionLogger \<Rightarrow> path \<Rightarrow> path \<Rightarrow> bool \<Rightarrow> ConversionLogger" where
  "log_conversion self source destination original_kept =
     self @ [LogConversion source destination original_kept]"

definition log_delete :: "ConversionLogger \<Rightarrow> path \<Rightarrow> ConversionLogger" where
  "log_delete self source = self @ [LogDelete source]"

definition log_error :: "ConversionLogger \<Rightarrow> path \<Rightarrow> error \<Rightarrow> ConversionLogger" where
  "log_error self source err = self @ [LogError source err]"

definition log_summary :: "ConversionLogger \<Rightarrow> Stats \<Rightarrow> ConversionLogger" where
  "log_summary self st = self @ [LogSummary st]"

definition count_status :: "ConversionStatus \<Rightarrow> ConversionLogger \<Rightarrow> nat" where
  "count_status k lg = length (filter (\<lambda>r. status r = Some k) lg)"

section \<open>progress_screen.py: the conversion driver\<close>

text \<open>
  What the program does not decide is the world it runs in: what a converter returns or
  raises for a file (\<open>convert\<close>), which button the user presses when the prompt for a
  file is shown (\<open>button\<close>, \<open>None\<close> when no button is ever pressed), and whether
  \<open>Path.unlink\<close> removes a file or raises \<open>OSError\<close> with a message (\<open>unlink\<close>).
\<close>

datatype decision = Keep | Delete

record world =
  convert :: "converter \<Rightarrow> path \<Rightarrow> string \<Rightarrow> error + path"
  button :: "path \<Rightarrow> decision option"
  unlink :: "path \<Rightarrow> string option"

text \<open>The lines written to the log panel of the screen.\<close>

datatype panel_line =
    LossyWarning path
  | Converted path path
  | Failed path error
  | Blank
  | Done int int
  | LogSaved

text \<open>
  The fields of \<open>ProgressScreen\<close>, the widgets it drives (the log panel, the progress
  bar, the prompt panel with its \<open>visible\<close> class), and two traces of what reached the
  outside: the files for which the prompt was shown and the files \<open>unlink\<close> removed.
\<close>

record ProgressScreen =
  files :: "path list"
  screen_target_format :: string
  current_file :: "path option"
  converted_output :: "path option"
  stats :: Stats
  logger :: ConversionLogger
  log_panel :: "panel_line list"
  progress :: nat
  prompt_visible :: bool
  prompts_shown :: "path list"
  removed_files :: "path list"

definition ProgressScreen_init :: "path list \<Rightarrow> string \<Rightarrow> ProgressScreen" where
  "ProgressScreen_init fs tgt =
     \<lparr>files = fs, screen_target_format = tgt, current_file = None, converted_output = None,
      stats = \<lparr>success = 0, skipped = 0, errors = 0\<rparr>,
      logger = ConversionLogger_init, log_panel = [], progress = 0,
      prompt_visible = False, prompts_shown = [], removed_files = []\<rparr>"

definition write_line :: "panel_line \<Rightarrow> ProgressScreen \<Rightarrow> ProgressScreen" where
  "write_line l self = self\<lparr>log_panel := log_panel self @ [l]\<rparr>"

definition show_keep_prompt :: "path \<Rightarrow> ProgressScreen \<Rightarrow> ProgressScreen" where
  "show_keep_prompt file self =
     self\<lparr>prompt_visible := True, prompts_shown := prompts_shown self @ [file]\<rparr>"

definition dismiss_prompt :: "ProgressScreen \<Rightarrow> ProgressScreen" where
  "dismiss_prompt self = self\<lparr>prompt_visible := False\<rparr>"

text \<open>
  \<open>on_keep\<close> and \<open>on_delete\<close>, the handlers of the two buttons. A \<open>Path\<close> is always
  truthy, so \<open>if self._current_file\<close> tests that the field is not \<open>None\<close>.
\<close>

definition on_keep :: "ProgressScreen \<Rightarrow> ProgressScreen" where
  "on_keep self =
     dismiss_prompt
       (case (current_file self, converted_output self) of
          (Some file, Some output) \<Rightarrow>
            self\<lparr>logger := log_conversion (logger self) file output True\<rparr>
        | _ \<Rightarrow> self)"

definition on_delete :: "world \<Rightarrow> ProgressScreen \<Rightarrow> ProgressScreen" where
  "on_delete w self =
     (let self1 =
        (case current_file self of
           None \<Rightarrow> self
         | Some file \<Rightarrow>
             (case unlink w file of
                None \<Rightarrow>
                  self\<lparr>removed_files := removed_files self @ [file],
                       logger := log_delete (logger self) file\<rparr>
              | Some msg \<Rightarrow>
                  self\<lparr>logger := log_error (logger self) file (OSError msg)\<rparr>));
          self2 =
        (case (current_file self1, converted_output self1) of
           (Some file, Some output) \<Rightarrow>
             self1\<lparr>logger := log_conversion (logger self1) file output False\<rparr>
         | _ \<Rightarrow> self1)
      in dismiss_prompt self2)"

text \<open>
  \<open>_wait_for_prompt\<close> polls until the prompt panel is no longer visible. The panel is
  hidden by the handler of the button the user presses; with no button pressed the loop
  never ends, which is the result \<open>None\<close>.
\<close>

definition wait_for_prompt :: "world \<Rightarrow> ProgressScreen \<Rightarrow> ProgressScreen option" where
  "wait_for_prompt w self =
     (if \<not> prompt_visible self then Some self
      else case current_file self of
             None \<Rightarrow> None
           | Some file \<Rightarrow>
               (case button w file of
                  None \<Rightarrow> None
                | Some Keep \<Rightarrow> Some (on_keep self)
                | Some Delete \<Rightarrow> Some (on_delete w self)))"

text \<open>The \<open>except Exception\<close> branch of the loop body.\<close>

definition on_exception :: "path \<Rightarrow> error \<Rightarrow> ProgressScreen \<Rightarrow> ProgressScreen" where
  "on_exception file exc self =
     write_line (Failed file exc)
       (self\<lparr>stats := (stats self)\<lparr>errors := errors (stats self) + 1\<rparr>,
             logger := log_error (logger self) file exc\<rparr>)"

text \<open>The body of the \<open>for\<close> loop of \<open>_run_conversions\<close> up to the progress bar.\<close>

definition process_file :: "world \<Rightarrow> path \<Rightarrow> ProgressScreen \<Rightarrow> ProgressScreen option" where
  "process_file w file self =
     (let self0 = self\<lparr>current_file := Some file\<rparr>;
          ext = lower (lstrip_dot (suffix file))
      in case get_route registry ext (screen_target_format self0) of
           Inl exc \<Rightarrow> Some (on_exception file exc self0)
         | Inr route \<Rightarrow>
             (let self1 = (if lossy route then write_line (LossyWarning file) self0 else self0)
              in case convert w (converter_class route) file (screen_target_format self1) of
                   Inl exc \<Rightarrow> Some (on_exception file exc self1)
                 | Inr output \<Rightarrow>
                     (let self2 = self1\<lparr>converted_output := Some output,
                                        stats := (stats self1)\<lparr>success := success (stats self1) + 1\<rparr>\<rparr>;
                          self3 = write_line (Converted file output) self2;
                          self4 = show_keep_prompt file self3
                      in wait_for_prompt w self4)))"

fun run_files :: "world \<Rightarrow> path list \<Rightarrow> ProgressScreen \<Rightarrow> ProgressScreen option" where
  "run_files w [] self = Some self"
| "run_files w (file # rest) self =
     (case process_file w file self of
        None \<Rightarrow> None
      | Some self' \<Rightarrow> run_files w rest (self'\<lparr>progress := progress self' + 1\<rparr>))"

definition show_done :: "ProgressScreen \<Rightarrow> ProgressScreen" where
  "show_done self =
     write_line LogSaved
       (write_line (Done (success (stats self)) (errors (stats self)))
          (write_line Blank self))"

definition run_conversions :: "world \<Rightarrow> ProgressScreen \<Rightarrow> ProgressScreen option" where
  "run_conversions w self =
     (case run_files w (files self) self of
        None \<Rightarrow> None
      | Some self' \<Rightarrow>
          Some (show_done (self'\<lparr>logger := log_summary (logger self') (stats self')\<rparr>)))"

section \<open>Notions the properties are stated with\<close>

text \<open>
  The registries a program can hold: the empty one of \<open>__init__\<close>, and what
  \<open>register\<close> makes of such a registry.
\<close>

inductive built :: "ConversionRegistry \<Rightarrow> bool" where
  built_init: "built ConversionRegistry_init"
| built_register: "built r \<Longrightarrow> built (register r route)"

text \<open>
  The objects a lookup can reach: the registry with its dict \<open>_routes\<close>, and the
  module-level dict \<open>EXTENSION_MEDIA_TYPE\<close>. Both are mutable Python dicts. Each dict
  operation is a step that returns its result and the memory after it: \<open>key in d\<close>,
  \<open>d[key]\<close> and \<open>d.get(key)\<close> read, \<open>d[key] = value\<close> writes.
\<close>

record memory =
  registry_object :: ConversionRegistry
  media_type_dict :: "(string \<times> MediaType) list"

definition routes_contains :: "string \<times> string \<Rightarrow> memory \<Rightarrow> bool \<times> memory" where
  "routes_contains key m = (key \<in> set (map fst (routes (registry_object m))), m)"

definition routes_getitem ::
  "string \<times> string \<Rightarrow> memory \<Rightarrow> (error + ConversionRoute) \<times> memory" where
  "routes_getitem key m =
     (case map_of (routes (registry_object m)) key of
        None \<Rightarrow> (Inl (OtherError ''KeyError''), m)
      | Some route \<Rightarrow> (Inr route, m))"

definition routes_setitem ::
  "string \<times> string \<Rightarrow> ConversionRoute \<Rightarrow> memory \<Rightarrow> unit \<times> memory" where
  "routes_setitem key route m =
     ((), m\<lparr>registry_object :=
              (registry_object m)\<lparr>routes := AList.update key route (routes (registry_object m))\<rparr>\<rparr>)"

definition media_type_get :: "string \<Rightarrow> memory \<Rightarrow> MediaType option \<times> memory" where
  "media_type_get key m = (map_of (media_type_dict m) key, m)"

text \<open>
  \<open>register\<close> and \<open>get_route\<close> as sequences of these steps, statement by statement as
  in \<open>registry.py\<close>, each step run on the memory the step before it left.
\<close>

definition register_call :: "ConversionRoute \<Rightarrow> memory \<Rightarrow> unit \<times> memory" where
  "register_call route m =
     (let key = (lower (source_format route), lower (target_format route))
      in routes_setitem key route m)"

definition get_route_call ::
  "string \<Rightarrow> string \<Rightarrow> memory \<Rightarrow> (error + ConversionRoute) \<times> memory" where
  "get_route_call src_fmt tgt_fmt m =
     (let key = (lower src_fmt, lower tgt_fmt);
          (present, m1) = routes_contains key m
      in if \<not> present then
           (let (src_type, m2) = media_type_get (lower src_fmt) m1;
                (tgt_type, m3) = media_type_get (lower tgt_fmt) m2
            in case (src_type, tgt_type) of
                 (Some a, Some b) \<Rightarrow>
                   if a \<noteq> b
                   then (Inl (ValueError (cross_domain_message src_fmt a tgt_fmt b)), m3)
                   else (Inl (ValueError (no_route_message src_fmt tgt_fmt)), m3)
               | _ \<Rightarrow> (Inl (ValueError (no_route_message src_fmt tgt_fmt)), m3))
         else routes_getitem key m1)"

text \<open>The memory of the program after import: the default registry and the catalog.\<close>

definition default_memory :: memory where
  "default_memory = \<lparr>registry_object = registry, media_type_dict = EXTENSION_MEDIA_TYPE\<rparr>"



text \<open>
  The default route table as section 6 of the specification lists it (source, target,
  lossy), written from the specification's words and compared below with the registry
  that \<open>build_default_registry\<close> builds.
\<close>

definition spec_image_table :: "(string \<times> string \<times> bool) list" where
  "spec_image_table =
     [(''heic'', ''jpg'', True), (''heic'', ''png'', False), (''jpg'', ''png'', False),
      (''jpg'', ''webp'', True), (''png'', ''jpg'', True), (''png'', ''webp'', False),
      (''png'', ''gif'', False), (''webp'', ''jpg'', True), (''webp'', ''png'', False),
      (''gif'', ''png'', False), (''bmp'', ''jpg'', True), (''bmp'', ''png'', False),
      (''tiff'', ''jpg'', True), (''tiff'', ''png'', False)]"

definition spec_video_table :: "(string \<times> string \<times> bool) list" where
  "spec_video_table =
     [(''mp4'', ''avi'', False), (''mp4'', ''mkv'', False), (''mp4'', ''mov'', False),
      (''avi'', ''mp4'', False), (''avi'', ''mkv'', False), (''mkv'', ''mp4'', False),
      (''mkv'', ''avi'', False), (''mov'', ''mp4'', False), (''mov'', ''avi'', False)]"

definition spec_audio_table :: "(string \<times> string \<times> bool) list" where
  "spec_audio_table =
     [(''mp3'', ''wav'', False), (''mp3'', ''flac'', False), (''wav'', ''mp3'', True),
      (''wav'', ''flac'', False), (''flac'', ''mp3'', True), (''flac'', ''wav'', False),
      (''aac'', ''mp3'', True), (''aac'', ''wav'', False), (''m4a'', ''mp3'', True),
      (''m4a'', ''wav'', False)]"

definition spec_document_table :: "(string \<times> string \<times> bool) list" where
  "spec_document_table = [(''pdf'', ''txt'', False), (''docx'', ''txt'', False)]"

definition spec_route_table :: "(string \<times> string \<times> bool) list" where
  "spec_route_table =
     spec_image_table @ spec_video_table @ spec_audio_table @ spec_document_table"

text \<open>A route across two domains, video to document, that the default table lacks.\<close>

definition mp4_to_pdf :: ConversionRoute where
  "mp4_to_pdf =
     \<lparr>source_format = ''mp4'', target_format = ''pdf'',
      converter_class = DocumentConverter, lossy = False\<rparr>"

text \<open>
  \<open>BaseConverter.get_output_path\<close>: the source path with its suffix replaced by a dot and
  the lowered target format.
\<close>

definition get_output_path :: "path \<Rightarrow> string \<Rightarrow> path" where
  "get_output_path source tgt_fmt = source\<lparr>suffix := ''.'' @ lower tgt_fmt\<rparr>"

text \<open>The two kinds of panel line that report the outcome of one file.\<close>

fun is_converted_line :: "panel_line \<Rightarrow> bool" where
  "is_converted_line (Converted file output) = True"
| "is_converted_line l = False"

fun is_failed_line :: "panel_line \<Rightarrow> bool" where
  "is_failed_line (Failed file exc) = True"
| "is_failed_line l = False"

text \<open>
  A batch of three images as the main screen can stage it (one media type, no file
  twice): \<open>a.heic\<close>, \<open>b.gif\<close> and \<open>c.HEIC\<close>. With the target \<open>jpg\<close> the first and the
  third have a route and the second has none, since only \<open>gif\<close> to \<open>png\<close> is registered.
\<close>

definition photo_a :: path where
  "photo_a = \<lparr>parent = ''/home/user/pictures'', stem = ''a'', suffix = ''.heic''\<rparr>"

definition anim_b :: path where
  "anim_b = \<lparr>parent = ''/home/user/pictures'', stem = ''b'', suffix = ''.gif''\<rparr>"

definition photo_c :: path where
  "photo_c = \<lparr>parent = ''/home/user/pictures'', stem = ''c'', suffix = ''.HEIC''\<rparr>"

text \<open>
  Two worlds. In both every conversion succeeds and writes beside the source. In the
  first the user keeps every original; in the second the user deletes every original and
  the directory is read-only, so that \<open>unlink\<close> raises \<open>PermissionError\<close>, an \<open>OSError\<close>.
\<close>

definition keeping_world :: world where
  "keeping_world =
     \<lparr>convert = (\<lambda>c file tgt. Inr (get_output_path file tgt)),
      button = (\<lambda>file. Some Keep),
      unlink = (\<lambda>file. None)\<rparr>"

definition read_only_world :: world where
  "read_only_world =
     \<lparr>convert = (\<lambda>c file tgt. Inr (get_output_path file tgt)),
      button = (\<lambda>file. Some Delete),
      unlink = (\<lambda>file. Some ''[Errno 13] Permission denied'')\<rparr>"

section \<open>Strings and lookups: basic facts\<close>



















lemma is_valid_map_of: "is_valid r s t \<longleftrightarrow> map_of (routes r) (lower s, lower t) \<noteq> None"
  by (simp add: is_valid_def map_of_eq_None_iff)

lemma get_route_Inr:
  "get_route r s t = Inr x \<longleftrightarrow> map_of (routes r) (lower s, lower t) = Some x"
  by (auto simp add: get_route_def split: option.splits)

lemma is_valid_get_route: "is_valid r s t \<longleftrightarrow> (\<exists>x. get_route r s t = Inr x)"
  by (auto simp add: is_valid_map_of get_route_Inr)

lemma cross_ne_no_route: "cross_domain_message s a t b \<noteq> no_route_message s' t'"
  by (simp add: cross_domain_message_def no_route_message_def)

lemma no_route_ne_cross: "no_route_message s' t' \<noteq> cross_domain_message s a t b"
  by (simp add: cross_domain_message_def no_route_message_def)

lemma MediaType_value_inj_app:
  "MediaType_value a @ u = MediaType_value a' @ u' \<Longrightarrow> a = a'"
  by (cases a; cases a'; simp)

lemma cross_inj:
  assumes "cross_domain_message s a t b = cross_domain_message s a' t b'"
  shows "a = a' \<and> b = b'"
proof -
  have a: "a = a'"
    using assms by (auto simp add: cross_domain_message_def dest: MediaType_value_inj_app)
  with assms have "MediaType_value b = MediaType_value b'"
    by (simp add: cross_domain_message_def)
  then have "b = b'"
    by (cases b; cases b'; simp)
  with a show ?thesis by simp
qed

text \<open>When \<open>get_route\<close> raises the cross-domain error, and when the other one.\<close>

lemma get_route_cross:
  "get_route r s t = Inl (ValueError (cross_domain_message s a t b)) \<longleftrightarrow>
     \<not> is_valid r s t \<and> get_media_type r s = Some a \<and> get_media_type r t = Some b \<and> a \<noteq> b"
  by (auto simp add: get_route_def is_valid_map_of get_media_type_def cross_ne_no_route
      no_route_ne_cross split: option.splits dest: cross_inj)

lemma get_route_no_route:
  "get_route r s t = Inl (ValueError (no_route_message s t)) \<longleftrightarrow>
     \<not> is_valid r s t \<and>
     \<not> (\<exists>a b. get_media_type r s = Some a \<and> get_media_type r t = Some b \<and> a \<noteq> b)"
  by (auto simp add: get_route_def is_valid_map_of get_media_type_def cross_ne_no_route
      no_route_ne_cross split: option.splits)

lemma sorted_targets: "sorted (get_valid_targets r s)"
  by (simp add: get_valid_targets_def)

lemma set_targets:
  "set (get_valid_targets r s) = {t. (lower s, t) \<in> set (map fst (routes r))}"
  by (force simp add: get_valid_targets_def Let_def)

lemma built_distinct: "built r \<Longrightarrow> distinct (map fst (routes r))"
  by (induction rule: built.induct)
     (simp_all add: ConversionRegistry_init_def register_def Let_def distinct_update)

lemma distinct_targets_of_keys:
  "distinct ks \<Longrightarrow> distinct (map snd (filter (\<lambda>(source, target). source = src) ks))"
  by (induction ks) auto

lemma built_register_all: "built r \<Longrightarrow> built (register_all c xs r)"
  by (induction c xs r rule: register_all.induct) (auto intro: built.intros)

lemma built_registry: "built registry"
  by (simp add: registry_def build_default_registry_def built_register_all built_init)

lemma registry_keys:
  "map fst (routes registry) = map (\<lambda>(s, t, l). (s, t)) spec_route_table"
  by code_simp

lemma registry_table_check:
  "list_all (\<lambda>(s, t, l). is_valid registry s t \<and>
      (case get_route registry s t of Inl e \<Rightarrow> False | Inr route \<Rightarrow> lossy route = l))
     spec_route_table"
  by code_simp

lemma registry_domain_check:
  "list_all (\<lambda>(k, route).
      case (get_media_type registry (source_format route),
            get_media_type registry (target_format route)) of
        (Some a, Some b) \<Rightarrow> a = b | _ \<Rightarrow> True) (routes registry)"
  by code_simp

lemma heic_targets: "get_valid_targets registry ''heic'' = [''jpg'', ''png'']"
  by code_simp

lemma xyz_targets: "get_valid_targets registry ''xyz'' = []"
  by code_simp

lemma mp4_pdf_error:
  "get_route registry ''mp4'' ''pdf'' =
     Inl (ValueError (cross_domain_message ''mp4'' VIDEO ''pdf'' DOCUMENT))"
  by code_simp

lemma heic_mp3_error:
  "get_route registry ''heic'' ''mp3'' =
     Inl (ValueError (cross_domain_message ''heic'' IMAGE ''mp3'' AUDIO))"
  by code_simp

lemma heic_gif_error:
  "get_route registry ''heic'' ''gif'' = Inl (ValueError (no_route_message ''heic'' ''gif''))"
  by code_simp

section \<open>The errors of get_route\<close>

text \<open>
  Claim C1, as the code has it. For a pair of formats with no registered route,
  \<open>get_route\<close> raises the cross-domain error, whose message carries the values of both
  media types, when both formats are in the extension catalog with different media
  types, and the no-route error for every other unregistered pair; no cross-domain
  message is equal to a no-route message, so a caller can tell the two apart. On the
  default registry \<open>mp4\<close> to \<open>pdf\<close> raises the cross-domain error, and so does \<open>heic\<close>
  to \<open>mp3\<close> (image and audio); \<open>heic\<close> to \<open>gif\<close>, an unregistered pair inside one
  domain, raises the no-route error.
\<close>

theorem unregistered_pair_error:
  "\<not> is_valid r s t \<Longrightarrow>
     (get_media_type r s = Some a \<and> get_media_type r t = Some b \<and> a \<noteq> b \<longrightarrow>
        get_route r s t = Inl (ValueError (cross_domain_message s a t b))) \<and>
     (\<not> (\<exists>c d. get_media_type r s = Some c \<and> get_media_type r t = Some d \<and> c \<noteq> d) \<longrightarrow>
        get_route r s t = Inl (ValueError (no_route_message s t))) \<and>
     cross_domain_message s a t b \<noteq> no_route_message s' t' \<and>
     get_route registry ''mp4'' ''pdf'' =
       Inl (ValueError (cross_domain_message ''mp4'' VIDEO ''pdf'' DOCUMENT)) \<and>
     get_route registry ''heic'' ''mp3'' =
       Inl (ValueError (cross_domain_message ''heic'' IMAGE ''mp3'' AUDIO)) \<and>
     get_route registry ''heic'' ''gif'' =
       Inl (ValueError (no_route_message ''heic'' ''gif''))"
  using get_route_cross [of r s t a b] get_route_no_route [of r s t]
  by (simp add: cross_ne_no_route mp4_pdf_error heic_mp3_error heic_gif_error)

lemma mp4_pdf_types:
  "\<not> is_valid registry ''mp4'' ''pdf'' \<and> get_media_type registry ''mp4'' = Some VIDEO \<and>
   get_media_type registry ''pdf'' = Some DOCUMENT"
  by code_simp

lemma heic_gif_types:
  "\<not> is_valid registry ''heic'' ''gif'' \<and> get_media_type registry ''heic'' = Some IMAGE \<and>
   get_media_type registry ''gif'' = Some IMAGE"
  by code_simp

theorem unregistered_pair_error_witness:
  "\<not> is_valid registry ''mp4'' ''pdf'' \<and>
   get_media_type registry ''mp4'' = Some VIDEO \<and>
   get_media_type registry ''pdf'' = Some DOCUMENT \<and> VIDEO \<noteq> DOCUMENT \<and>
   get_route registry ''mp4'' ''pdf'' =
     Inl (ValueError (cross_domain_message ''mp4'' VIDEO ''pdf'' DOCUMENT)) \<and>
   \<not> is_valid registry ''heic'' ''gif'' \<and>
   \<not> (\<exists>c d. get_media_type registry ''heic'' = Some c \<and>
            get_media_type registry ''gif'' = Some d \<and> c \<noteq> d) \<and>
   get_route registry ''heic'' ''gif'' = Inl (ValueError (no_route_message ''heic'' ''gif''))"
  using unregistered_pair_error [of registry "''mp4''" "''pdf''" VIDEO DOCUMENT]
    unregistered_pair_error [of registry "''heic''" "''gif''" IMAGE IMAGE]
    mp4_pdf_types heic_gif_types
  by simp

text \<open>
  Claim C1 as stated says that \<open>heic\<close> to \<open>mp3\<close> raises the no-route error. The pair is
  unregistered, \<open>heic\<close> is an image format and \<open>mp3\<close> an audio format, and the error
  raised is the cross-domain one.
\<close>

theorem heic_mp3_cross_domain_counterexample:
  "\<not> is_valid registry ''heic'' ''mp3'' \<and>
   get_route registry ''heic'' ''mp3'' \<noteq> Inl (ValueError (no_route_message ''heic'' ''mp3'')) \<and>
   get_route registry ''heic'' ''mp3'' =
     Inl (ValueError (cross_domain_message ''heic'' IMAGE ''mp3'' AUDIO))"
proof -
  have "\<not> is_valid registry ''heic'' ''mp3''"
    by (simp add: is_valid_get_route heic_mp3_error)
  then show ?thesis
    by (simp add: heic_mp3_error cross_ne_no_route)
qed

section \<open>The default registry\<close>

text \<open>
  Claim C2. For every triple (source, target, lossy) of the default route table of the
  specification (14 image, 9 video, 10 audio and 2 document routes) the default registry
  answers \<open>is_valid\<close> with true and \<open>get_route\<close> with a route whose lossy flag is the one
  of the table; and every pair the registry holds is a pair of the table.
\<close>

theorem default_registry_matches_table:
  "(\<forall>(s, t, l) \<in> set spec_route_table.
      is_valid registry s t \<and> (\<exists>route. get_route registry s t = Inr route \<and> lossy route = l)) \<and>
   (\<forall>s t. is_valid registry s t \<longrightarrow> (\<exists>l. (lower s, lower t, l) \<in> set spec_route_table)) \<and>
   length spec_image_table = 14 \<and> length spec_video_table = 9 \<and>
   length spec_audio_table = 10 \<and> length spec_document_table = 2 \<and>
   length (routes registry) = 35"
proof -
  have a: "\<forall>(s, t, l) \<in> set spec_route_table.
      is_valid registry s t \<and> (\<exists>route. get_route registry s t = Inr route \<and> lossy route = l)"
  proof (clarify)
    fix s t l assume "(s, t, l) \<in> set spec_route_table"
    with registry_table_check
    have "is_valid registry s t \<and>
      (case get_route registry s t of Inl e \<Rightarrow> False | Inr route \<Rightarrow> lossy route = l)"
      by (auto simp add: list_all_iff)
    then show "is_valid registry s t \<and>
      (\<exists>route. get_route registry s t = Inr route \<and> lossy route = l)"
      by (cases "get_route registry s t") auto
  qed
  have b: "\<forall>s t. is_valid registry s t \<longrightarrow> (\<exists>l. (lower s, lower t, l) \<in> set spec_route_table)"
  proof (intro allI impI)
    fix s t assume "is_valid registry s t"
    then have "(lower s, lower t) \<in> set (map (\<lambda>(s, t, l). (s, t)) spec_route_table)"
      by (simp only: is_valid_def registry_keys)
    then show "\<exists>l. (lower s, lower t, l) \<in> set spec_route_table"
      by auto
  qed
  have c: "length (routes registry) = 35"
    using arg_cong [OF registry_keys, of length]
    by (simp add: spec_route_table_def spec_image_table_def spec_video_table_def
        spec_audio_table_def spec_document_table_def)
  from a b c show ?thesis
    by (simp add: spec_image_table_def spec_video_table_def
        spec_audio_table_def spec_document_table_def)
qed

lemma heic_jpg_in_table: "(''heic'', ''jpg'', True) \<in> set spec_route_table"
  by (simp add: spec_route_table_def spec_image_table_def)

theorem default_registry_matches_table_witness:
  "(''heic'', ''jpg'', True) \<in> set spec_route_table \<and>
   is_valid registry ''heic'' ''jpg'' \<and>
   (\<exists>route. get_route registry ''heic'' ''jpg'' = Inr route \<and> lossy route = True) \<and>
   (\<exists>l. (lower ''heic'', lower ''jpg'', l) \<in> set spec_route_table)"
  using default_registry_matches_table heic_jpg_in_table
  by fastforce

section \<open>Valid targets\<close>

text \<open>
  Claim C5. For every registry and source format, \<open>get_valid_targets\<close> returns a list in
  ascending order whose elements are exactly the targets registered for the lowered
  source; when no route exists for the source the list is empty, and no error is raised.
  On the default registry the targets of \<open>heic\<close> are \<open>jpg\<close> and \<open>png\<close> in this order,
  and those of \<open>xyz\<close> are none.
\<close>

theorem valid_targets_sorted_complete:
  "sorted (get_valid_targets r s) \<and>
   set (get_valid_targets r s) = {t. (lower s, t) \<in> set (map fst (routes r))} \<and>
   ((\<forall>t. (lower s, t) \<notin> set (map fst (routes r))) \<longrightarrow> get_valid_targets r s = []) \<and>
   get_valid_targets registry ''heic'' = [''jpg'', ''png''] \<and>
   get_valid_targets registry ''xyz'' = []"
proof -
  have "(\<forall>t. (lower s, t) \<notin> set (map fst (routes r))) \<longrightarrow> get_valid_targets r s = []"
    using set_targets [of r s] by auto
  then show ?thesis
    by (simp only: sorted_targets set_targets heic_targets xyz_targets simp_thms)
qed

lemma xyz_no_source: "lower ''xyz'' \<notin> set (map (fst \<circ> fst) (routes registry))"
  by code_simp

theorem valid_targets_sorted_complete_witness:
  "(\<forall>t. (lower ''xyz'', t) \<notin> set (map fst (routes registry))) \<and>
   get_valid_targets registry ''xyz'' = [] \<and>
   sorted (get_valid_targets registry ''heic'') \<and>
   set (get_valid_targets registry ''heic'') = {''jpg'', ''png''}"
proof -
  have h: "\<forall>t. (lower ''xyz'', t) \<notin> set (map fst (routes registry))"
    using xyz_no_source by force
  show ?thesis
    using h valid_targets_sorted_complete [of registry "''xyz''"]
      valid_targets_sorted_complete [of registry "''heic''"]
    by (simp add: insert_commute)
qed

section \<open>Case of the arguments\<close>

lemma heic_jpg_valid: "is_valid registry ''heic'' ''jpg''"
  by code_simp






section \<open>Lookup leaves the registry alone\<close>

text \<open>
  \<open>get_route\<close> run step by step on the memory: its result is the one of the function
  \<open>get_route\<close> above, and the memory after it is the memory before it, because every
  step it takes is a read. \<open>register\<close> run the same way does write.
\<close>

lemma key_in_dict: "k \<in> fst ` set al \<longleftrightarrow> map_of al k \<noteq> None"
  by (simp add: map_of_eq_None_iff)

lemma get_route_call_result:
  "fst (get_route_call s t m) =
     (case map_of (routes (registry_object m)) (lower s, lower t) of
        Some route \<Rightarrow> Inr route
      | None \<Rightarrow>
          (case (map_of (media_type_dict m) (lower s), map_of (media_type_dict m) (lower t)) of
             (Some a, Some b) \<Rightarrow>
               if a \<noteq> b then Inl (ValueError (cross_domain_message s a t b))
               else Inl (ValueError (no_route_message s t))
           | _ \<Rightarrow> Inl (ValueError (no_route_message s t))))"
  by (auto simp add: get_route_call_def routes_contains_def routes_getitem_def
      media_type_get_def Let_def key_in_dict split: option.splits)

lemma get_route_call_memory: "snd (get_route_call s t m) = m"
  by (auto simp add: get_route_call_def routes_contains_def routes_getitem_def
      media_type_get_def Let_def split: option.splits)

lemma get_route_call_get_route:
  "media_type_dict m = EXTENSION_MEDIA_TYPE \<Longrightarrow>
     fst (get_route_call s t m) = get_route (registry_object m) s t"
  by (simp add: get_route_call_result get_route_def Let_def split: option.splits)

lemma register_call_register:
  "registry_object (snd (register_call route m)) = register (registry_object m) route"
  by (simp add: register_call_def routes_setitem_def register_def Let_def)

lemma register_call_writes:
  "snd (register_call mp4_to_pdf default_memory) \<noteq> default_memory"
proof
  assume "snd (register_call mp4_to_pdf default_memory) = default_memory"
  then have "registry_object (snd (register_call mp4_to_pdf default_memory)) = registry"
    by (simp add: default_memory_def)
  then have "register registry mp4_to_pdf = registry"
    by (simp add: register_call_register default_memory_def)
  then have "get_route (register registry mp4_to_pdf) ''mp4'' ''pdf'' =
      get_route registry ''mp4'' ''pdf''"
    by simp
  moreover have "get_route (register registry mp4_to_pdf) ''mp4'' ''pdf'' = Inr mp4_to_pdf"
    using get_route_Inr [of "register registry mp4_to_pdf" "''mp4''" "''pdf''" mp4_to_pdf]
    by (simp add: register_def Let_def update_conv' mp4_to_pdf_def)
  ultimately show False
    by (simp add: mp4_pdf_error)
qed

text \<open>
  Claim C7. Two calls of \<open>get_route\<close> in a row with the same pair, the second run on
  the memory the first one left, give the same result, on success two routes equal in
  source format, target format, converter class and lossy flag; and the registry and the
  catalog are after each call what they were before the first.
\<close>

theorem get_route_twice_same:
  "get_route_call s t m = (res1, m1) \<Longrightarrow> get_route_call s t m1 = (res2, m2) \<Longrightarrow>
     res2 = res1 \<and> m1 = m \<and> m2 = m \<and>
     (media_type_dict m = EXTENSION_MEDIA_TYPE \<longrightarrow> res1 = get_route (registry_object m) s t) \<and>
     (\<forall>x y. res1 = Inr x \<and> res2 = Inr y \<longrightarrow>
        source_format y = source_format x \<and> target_format y = target_format x \<and>
        converter_class y = converter_class x \<and> lossy y = lossy x)"
proof -
  assume c1: "get_route_call s t m = (res1, m1)" and c2: "get_route_call s t m1 = (res2, m2)"
  from c1 get_route_call_memory [of s t m] have m1: "m1 = m" by simp
  from c2 get_route_call_memory [of s t m1] have m2: "m2 = m1" by simp
  from c1 c2 m1 have r: "res2 = res1" by simp
  from c1 get_route_call_get_route [of m s t]
  have "media_type_dict m = EXTENSION_MEDIA_TYPE \<longrightarrow> res1 = get_route (registry_object m) s t"
    by auto
  with m1 m2 r show ?thesis by auto
qed

lemma heic_jpg_call:
  "get_route_call ''heic'' ''jpg'' default_memory =
     (Inr \<lparr>source_format = ''heic'', target_format = ''jpg'',
           converter_class = ImageConverter, lossy = True\<rparr>, default_memory)"
  by code_simp

theorem get_route_twice_same_witness:
  "get_route_call ''heic'' ''jpg'' default_memory =
     (Inr \<lparr>source_format = ''heic'', target_format = ''jpg'',
           converter_class = ImageConverter, lossy = True\<rparr>, default_memory) \<and>
   media_type_dict default_memory = EXTENSION_MEDIA_TYPE \<and>
   get_route (registry_object default_memory) ''heic'' ''jpg'' =
     Inr \<lparr>source_format = ''heic'', target_format = ''jpg'',
          converter_class = ImageConverter, lossy = True\<rparr>"
  using get_route_twice_same [OF heic_jpg_call heic_jpg_call] heic_jpg_call
  by (simp add: default_memory_def)

section \<open>No route of the default registry crosses domains\<close>

text \<open>
  Claim C8. For every route of the default registry, when its source format and its
  target format are both in the extension catalog, the two have the same media type.
\<close>

theorem default_routes_same_domain:
  "(k, route) \<in> set (routes registry) \<Longrightarrow>
     get_media_type registry (source_format route) = Some a \<Longrightarrow>
     get_media_type registry (target_format route) = Some b \<Longrightarrow> a = b"
  using registry_domain_check
  by (auto simp add: list_all_iff split: option.splits)

lemma heic_jpg_registered:
  "((''heic'', ''jpg''), \<lparr>source_format = ''heic'', target_format = ''jpg'',
      converter_class = ImageConverter, lossy = True\<rparr>) \<in> set (routes registry) \<and>
   get_media_type registry ''heic'' = Some IMAGE \<and> get_media_type registry ''jpg'' = Some IMAGE"
  by code_simp

theorem default_routes_same_domain_witness:
  "((''heic'', ''jpg''), \<lparr>source_format = ''heic'', target_format = ''jpg'',
      converter_class = ImageConverter, lossy = True\<rparr>) \<in> set (routes registry) \<and>
   get_media_type registry ''heic'' = Some IMAGE \<and>
   get_media_type registry ''jpg'' = Some IMAGE \<and> IMAGE = IMAGE"
  using default_routes_same_domain [of "(''heic'', ''jpg'')"
      "\<lparr>source_format = ''heic'', target_format = ''jpg'',
        converter_class = ImageConverter, lossy = True\<rparr>" IMAGE IMAGE]
    heic_jpg_registered
  by simp

section \<open>Registration without validation\<close>

text \<open>
  Claim C9. \<open>register\<close> stores every route, with no check of the media types, and
  \<open>get_route\<close> returns the route stored under a registered pair without an error,
  whatever the media types of the two formats are: \<open>is_valid\<close> holds exactly when
  \<open>get_route\<close> returns a route, so the cross-domain error is raised for unregistered
  pairs only.
\<close>

theorem registered_route_returned_without_domain_check:
  "get_route (register r route) (source_format route) (target_format route) = Inr route \<and>
   is_valid (register r route) (source_format route) (target_format route) \<and>
   is_valid r s t = (\<exists>x. get_route r s t = Inr x) \<and>
   (get_route r s t = Inl (ValueError (cross_domain_message s a t b)) \<longrightarrow> \<not> is_valid r s t)"
proof -
  have g: "get_route (register r route) (source_format route) (target_format route) = Inr route"
    by (simp add: get_route_Inr register_def Let_def update_conv')
  then have "is_valid (register r route) (source_format route) (target_format route)"
    by (auto simp add: is_valid_get_route)
  with g show ?thesis
    using is_valid_get_route [of r s t] by (simp add: get_route_cross)
qed

lemma mp4_pdf_domains:
  "get_media_type registry (source_format mp4_to_pdf) = Some VIDEO \<and>
   get_media_type registry (target_format mp4_to_pdf) = Some DOCUMENT"
  by code_simp

theorem registered_route_returned_without_domain_check_witness:
  "get_media_type registry (source_format mp4_to_pdf) = Some VIDEO \<and>
   get_media_type registry (target_format mp4_to_pdf) = Some DOCUMENT \<and>
   get_route (register registry mp4_to_pdf) ''mp4'' ''pdf'' = Inr mp4_to_pdf \<and>
   get_route registry ''mp4'' ''pdf'' =
     Inl (ValueError (cross_domain_message ''mp4'' VIDEO ''pdf'' DOCUMENT)) \<and>
   \<not> is_valid registry ''mp4'' ''pdf''"
  using registered_route_returned_without_domain_check
      [of registry mp4_to_pdf "''mp4''" "''pdf''" VIDEO DOCUMENT]
    mp4_pdf_domains mp4_pdf_error
  by (simp add: mp4_to_pdf_def)

section \<open>Valid targets and is_valid agree\<close>

text \<open>
  Claim C10. For every source format and every lowercase target format, the target is in
  the list of \<open>get_valid_targets\<close> exactly when \<open>is_valid\<close> holds for the pair; and in
  a registry built by \<open>register\<close> from the empty one that list has no element twice.
\<close>

theorem valid_targets_consistent_with_is_valid:
  "(lower t = t \<longrightarrow> (t \<in> set (get_valid_targets r s) \<longleftrightarrow> is_valid r s t)) \<and>
   (built r \<longrightarrow> distinct (get_valid_targets r s))"
proof -
  have "built r \<longrightarrow> distinct (get_valid_targets r s)"
    by (simp add: get_valid_targets_def Let_def distinct_targets_of_keys built_distinct)
  moreover have "lower t = t \<longrightarrow> (t \<in> set (get_valid_targets r s) \<longleftrightarrow> is_valid r s t)"
    by (auto simp add: set_targets is_valid_def)
  ultimately show ?thesis by simp
qed

lemma jpg_lower: "lower ''jpg'' = ''jpg''"
  by code_simp

theorem valid_targets_consistent_with_is_valid_witness:
  "lower ''jpg'' = ''jpg'' \<and> built registry \<and>
   ''jpg'' \<in> set (get_valid_targets registry ''heic'') \<and> is_valid registry ''heic'' ''jpg'' \<and>
   distinct (get_valid_targets registry ''heic'')"
  using valid_targets_consistent_with_is_valid [of "''jpg''" registry "''heic''"]
    jpg_lower built_registry heic_jpg_valid
  by simp

section \<open>The conversion driver\<close>

text \<open>One pass of the loop body, for a file with no route and for a file that converts.\<close>

lemma get_route_invalid: "\<not> is_valid r s t \<Longrightarrow> \<exists>e. get_route r s t = Inl e"
  by (cases "get_route r s t") (auto simp add: is_valid_get_route)

lemma process_file_converted:
  assumes "get_route registry (lower (lstrip_dot (suffix f))) (screen_target_format st) = Inr route"
    and "convert w (converter_class route) f (screen_target_format st) = Inr out"
    and "button w f = Some d"
  shows "\<exists>st'. process_file w f st = Some st' \<and>
      screen_target_format st' = screen_target_format st \<and>
      stats st' = (stats st)\<lparr>success := success (stats st) + 1\<rparr> \<and>
      count_status SUCCESS (logger st') = count_status SUCCESS (logger st) + 1 \<and>
      count_status ERROR (logger st') =
        count_status ERROR (logger st) + (if d = Delete \<and> unlink w f \<noteq> None then 1 else 0) \<and>
      prompts_shown st' = prompts_shown st @ [f] \<and>
      progress st' = progress st \<and>
      length (filter is_converted_line (log_panel st')) =
        length (filter is_converted_line (log_panel st)) + 1 \<and>
      length (filter is_failed_line (log_panel st')) =
        length (filter is_failed_line (log_panel st))"
  using assms
  by (cases d; cases "unlink w f"; cases "lossy route")
     (simp_all add: process_file_def Let_def wait_for_prompt_def show_keep_prompt_def
        write_line_def on_keep_def on_delete_def dismiss_prompt_def log_conversion_def
        log_delete_def log_error_def count_status_def)

lemma process_file_no_route:
  assumes "\<not> is_valid registry (lower (lstrip_dot (suffix f))) (screen_target_format st)"
  shows "\<exists>st'. process_file w f st = Some st' \<and>
      screen_target_format st' = screen_target_format st \<and>
      stats st' = (stats st)\<lparr>errors := errors (stats st) + 1\<rparr> \<and>
      count_status SUCCESS (logger st') = count_status SUCCESS (logger st) \<and>
      count_status ERROR (logger st') = count_status ERROR (logger st) + 1 \<and>
      prompts_shown st' = prompts_shown st \<and>
      progress st' = progress st \<and>
      length (filter is_converted_line (log_panel st')) =
        length (filter is_converted_line (log_panel st)) \<and>
      length (filter is_failed_line (log_panel st')) =
        length (filter is_failed_line (log_panel st)) + 1"
proof -
  from assms obtain e where
    "get_route registry (lower (lstrip_dot (suffix f))) (screen_target_format st) = Inl e"
    using get_route_invalid by blast
  then show ?thesis
    by (simp add: process_file_def Let_def on_exception_def write_line_def log_error_def
        count_status_def)
qed

text \<open>What the two buttons write, for a file that has been converted.\<close>

lemma decision_log:
  assumes "current_file st = Some f" and "converted_output st = Some out"
  shows "logger (on_keep st) = logger st @ [LogConversion f out True]"
    and "removed_files (on_keep st) = removed_files st"
    and "unlink w f = None \<Longrightarrow>
      logger (on_delete w st) = logger st @ [LogDelete f, LogConversion f out False] \<and>
      removed_files (on_delete w st) = removed_files st @ [f]"
    and "unlink w f = Some msg \<Longrightarrow>
      logger (on_delete w st) =
        logger st @ [LogError f (OSError msg), LogConversion f out False] \<and>
      removed_files (on_delete w st) = removed_files st"
    and "\<not> prompt_visible (on_keep st)" and "\<not> prompt_visible (on_delete w st)"
  using assms
  by (auto simp add: on_keep_def on_delete_def dismiss_prompt_def log_conversion_def
      log_delete_def log_error_def Let_def split: option.splits)

text \<open>
  Claim C3, as the code has it. For a batch of three files of which the second has no
  registered route while the first and the third have one and are converted, and with the
  user answering the two prompts, the run ends; the session log then holds exactly 2
  Success records and ends with the Summary of success 2, skipped 0 and errors 1, and
  the log panel shows 2 converted lines and 1 failed line; the prompt was shown for the
  first and the third file only, and all three files were processed. The Error records
  of the session log are the one of the second file and one more for each original whose
  deletion was chosen and failed: exactly 1 when no deletion fails.
\<close>

theorem batch_with_unroutable_second_file:
  assumes r1: "get_route registry (lower (lstrip_dot (suffix f1))) tgt = Inr route1"
    and c1: "convert w (converter_class route1) f1 tgt = Inr out1"
    and b1: "button w f1 = Some d1"
    and r2: "\<not> is_valid registry (lower (lstrip_dot (suffix f2))) tgt"
    and r3: "get_route registry (lower (lstrip_dot (suffix f3))) tgt = Inr route3"
    and c3: "convert w (converter_class route3) f3 tgt = Inr out3"
    and b3: "button w f3 = Some d3"
  shows "\<exists>fin. run_conversions w (ProgressScreen_init [f1, f2, f3] tgt) = Some fin \<and>
      count_status SUCCESS (logger fin) = 2 \<and>
      count_status ERROR (logger fin) =
        1 + length (filter (\<lambda>f. button w f = Some Delete \<and> unlink w f \<noteq> None) [f1, f3]) \<and>
      last (logger fin) = LogSummary \<lparr>success = 2, skipped = 0, errors = 1\<rparr> \<and>
      length (filter is_converted_line (log_panel fin)) = 2 \<and>
      length (filter is_failed_line (log_panel fin)) = 1 \<and>
      prompts_shown fin = [f1, f3] \<and> progress fin = 3"
proof -
  let ?s0 = "ProgressScreen_init [f1, f2, f3] tgt"
  have t0: "screen_target_format ?s0 = tgt"
    by (simp add: ProgressScreen_init_def)
  from process_file_converted [of f1 ?s0 route1 w out1 d1] r1 c1 b1 t0
  obtain s1 where s1: "process_file w f1 ?s0 = Some s1"
    and t1: "screen_target_format s1 = tgt"
    and st1: "stats s1 = \<lparr>success = 1, skipped = 0, errors = 0\<rparr>"
    and ok1: "count_status SUCCESS (logger s1) = 1"
    and er1: "count_status ERROR (logger s1) = (if d1 = Delete \<and> unlink w f1 \<noteq> None then 1 else 0)"
    and pr1: "prompts_shown s1 = [f1]" and pg1: "progress s1 = 0"
    and cv1: "length (filter is_converted_line (log_panel s1)) = 1"
    and fl1: "length (filter is_failed_line (log_panel s1)) = 0"
    by (auto simp add: ProgressScreen_init_def ConversionLogger_init_def count_status_def)
  let ?s1 = "s1\<lparr>progress := progress s1 + 1\<rparr>"
  from process_file_no_route [of f2 ?s1 w] r2 t1
  obtain s2 where s2: "process_file w f2 ?s1 = Some s2"
    and t2: "screen_target_format s2 = tgt"
    and st2: "stats s2 = \<lparr>success = 1, skipped = 0, errors = 1\<rparr>"
    and ok2: "count_status SUCCESS (logger s2) = 1"
    and er2: "count_status ERROR (logger s2) =
        (if d1 = Delete \<and> unlink w f1 \<noteq> None then 1 else 0) + 1"
    and pr2: "prompts_shown s2 = [f1]" and pg2: "progress s2 = 1"
    and cv2: "length (filter is_converted_line (log_panel s2)) = 1"
    and fl2: "length (filter is_failed_line (log_panel s2)) = 1"
    using st1 ok1 er1 pr1 pg1 cv1 fl1 by auto
  let ?s2 = "s2\<lparr>progress := progress s2 + 1\<rparr>"
  from process_file_converted [of f3 ?s2 route3 w out3 d3] r3 c3 b3 t2
  obtain s3 where s3: "process_file w f3 ?s2 = Some s3"
    and st3: "stats s3 = \<lparr>success = 2, skipped = 0, errors = 1\<rparr>"
    and ok3: "count_status SUCCESS (logger s3) = 2"
    and er3: "count_status ERROR (logger s3) =
        (if d1 = Delete \<and> unlink w f1 \<noteq> None then 1 else 0) + 1 +
        (if d3 = Delete \<and> unlink w f3 \<noteq> None then 1 else 0)"
    and pr3: "prompts_shown s3 = [f1, f3]" and pg3: "progress s3 = 2"
    and cv3: "length (filter is_converted_line (log_panel s3)) = 2"
    and fl3: "length (filter is_failed_line (log_panel s3)) = 1"
    using st2 ok2 er2 pr2 pg2 cv2 fl2 by auto
  have s2': "process_file w f2 (s1\<lparr>progress := Suc (progress s1)\<rparr>) = Some s2"
    using s2 by simp
  have s3': "process_file w f3 (s2\<lparr>progress := Suc (progress s2)\<rparr>) = Some s3"
    using s3 by simp
  have run: "run_files w [f1, f2, f3] ?s0 = Some (s3\<lparr>progress := progress s3 + 1\<rparr>)"
    by (simp add: s1 s2' s3')
  have fs: "files ?s0 = [f1, f2, f3]"
    by (simp add: ProgressScreen_init_def)
  let ?s3 = "s3\<lparr>progress := progress s3 + 1\<rparr>"
  let ?fin = "show_done (?s3\<lparr>logger := log_summary (logger ?s3) (stats ?s3)\<rparr>)"
  have rc: "run_conversions w ?s0 = Some ?fin"
    unfolding run_conversions_def fs run by simp
  have props: "count_status SUCCESS (logger ?fin) = 2 \<and>
      count_status ERROR (logger ?fin) =
        1 + length (filter (\<lambda>f. button w f = Some Delete \<and> unlink w f \<noteq> None) [f1, f3]) \<and>
      last (logger ?fin) = LogSummary \<lparr>success = 2, skipped = 0, errors = 1\<rparr> \<and>
      length (filter is_converted_line (log_panel ?fin)) = 2 \<and>
      length (filter is_failed_line (log_panel ?fin)) = 1 \<and>
      prompts_shown ?fin = [f1, f3] \<and> progress ?fin = 3"
    using st3 ok3 er3 pr3 pg3 cv3 fl3 b1 b3
    by (simp add: show_done_def write_line_def log_summary_def count_status_def)
  from rc props show ?thesis
    by blast
qed

lemma keeping_batch:
  "get_route registry (lower (lstrip_dot (suffix photo_a))) ''jpg'' =
     Inr \<lparr>source_format = ''heic'', target_format = ''jpg'',
          converter_class = ImageConverter, lossy = True\<rparr> \<and>
   convert keeping_world ImageConverter photo_a ''jpg'' = Inr (get_output_path photo_a ''jpg'') \<and>
   button keeping_world photo_a = Some Keep \<and>
   \<not> is_valid registry (lower (lstrip_dot (suffix anim_b))) ''jpg'' \<and>
   get_route registry (lower (lstrip_dot (suffix photo_c))) ''jpg'' =
     Inr \<lparr>source_format = ''heic'', target_format = ''jpg'',
          converter_class = ImageConverter, lossy = True\<rparr> \<and>
   convert keeping_world ImageConverter photo_c ''jpg'' = Inr (get_output_path photo_c ''jpg'') \<and>
   button keeping_world photo_c = Some Keep"
  by code_simp

theorem batch_with_unroutable_second_file_witness:
  "get_route registry (lower (lstrip_dot (suffix photo_a))) ''jpg'' =
     Inr \<lparr>source_format = ''heic'', target_format = ''jpg'',
          converter_class = ImageConverter, lossy = True\<rparr> \<and>
   convert keeping_world ImageConverter photo_a ''jpg'' = Inr (get_output_path photo_a ''jpg'') \<and>
   button keeping_world photo_a = Some Keep \<and>
   \<not> is_valid registry (lower (lstrip_dot (suffix anim_b))) ''jpg'' \<and>
   get_route registry (lower (lstrip_dot (suffix photo_c))) ''jpg'' =
     Inr \<lparr>source_format = ''heic'', target_format = ''jpg'',
          converter_class = ImageConverter, lossy = True\<rparr> \<and>
   convert keeping_world ImageConverter photo_c ''jpg'' = Inr (get_output_path photo_c ''jpg'') \<and>
   button keeping_world photo_c = Some Keep \<and>
   (\<exists>fin. run_conversions keeping_world (ProgressScreen_init [photo_a, anim_b, photo_c] ''jpg'')
        = Some fin \<and>
      count_status SUCCESS (logger fin) = 2 \<and> count_status ERROR (logger fin) = 1 \<and>
      last (logger fin) = LogSummary \<lparr>success = 2, skipped = 0, errors = 1\<rparr> \<and>
      prompts_shown fin = [photo_a, photo_c])"
proof -
  let ?route = "\<lparr>source_format = ''heic'', target_format = ''jpg'',
      converter_class = ImageConverter, lossy = True\<rparr>"
  from keeping_batch
  have h1: "get_route registry (lower (lstrip_dot (suffix photo_a))) ''jpg'' = Inr ?route"
    and h2: "convert keeping_world (converter_class ?route) photo_a ''jpg'' =
        Inr (get_output_path photo_a ''jpg'')"
    and h3: "button keeping_world photo_a = Some Keep"
    and h4: "\<not> is_valid registry (lower (lstrip_dot (suffix anim_b))) ''jpg''"
    and h5: "get_route registry (lower (lstrip_dot (suffix photo_c))) ''jpg'' = Inr ?route"
    and h6: "convert keeping_world (converter_class ?route) photo_c ''jpg'' =
        Inr (get_output_path photo_c ''jpg'')"
    and h7: "button keeping_world photo_c = Some Keep"
    by simp_all
  from batch_with_unroutable_second_file [OF h1 h2 h3 h4 h5 h6 h7]
  obtain fin where
    "run_conversions keeping_world (ProgressScreen_init [photo_a, anim_b, photo_c] ''jpg'')
       = Some fin"
    and "count_status SUCCESS (logger fin) = 2"
    and "count_status ERROR (logger fin) = 1"
    and "last (logger fin) = LogSummary \<lparr>success = 2, skipped = 0, errors = 1\<rparr>"
    and "prompts_shown fin = [photo_a, photo_c]"
    using h3 h7 by auto
  with keeping_batch show ?thesis
    by blast
qed

text \<open>
  Claim C3 as stated gives exactly 1 Error event for every such batch. In a read-only
  directory, with the user choosing to delete both originals, the first and the third
  file are converted, the second has no route, and the session log holds 2 Success
  records and 3 Error records: the one of the second file and two for the deletions that
  failed.
\<close>

theorem failed_deletions_add_error_events_counterexample:
  "get_route registry (lower (lstrip_dot (suffix photo_a))) ''jpg'' =
     Inr \<lparr>source_format = ''heic'', target_format = ''jpg'',
          converter_class = ImageConverter, lossy = True\<rparr> \<and>
   convert read_only_world ImageConverter photo_a ''jpg'' = Inr (get_output_path photo_a ''jpg'') \<and>
   \<not> is_valid registry (lower (lstrip_dot (suffix anim_b))) ''jpg'' \<and>
   get_route registry (lower (lstrip_dot (suffix photo_c))) ''jpg'' =
     Inr \<lparr>source_format = ''heic'', target_format = ''jpg'',
          converter_class = ImageConverter, lossy = True\<rparr> \<and>
   convert read_only_world ImageConverter photo_c ''jpg'' = Inr (get_output_path photo_c ''jpg'') \<and>
   map_option (count_status SUCCESS \<circ> logger)
     (run_conversions read_only_world (ProgressScreen_init [photo_a, anim_b, photo_c] ''jpg''))
     = Some 2 \<and>
   map_option (count_status ERROR \<circ> logger)
     (run_conversions read_only_world (ProgressScreen_init [photo_a, anim_b, photo_c] ''jpg''))
     = Some 3 \<and>
   map_option (count_status ERROR \<circ> logger)
     (run_conversions read_only_world (ProgressScreen_init [photo_a, anim_b, photo_c] ''jpg''))
     \<noteq> Some 1"
  by code_simp

text \<open>
  Claim C4 says that the Success record written after the decision tells whether the
  original was in fact retained, as the docstring of \<open>log_conversion\<close> does
  (\<open>original_kept\<close>: whether the source file was kept). \<open>on_delete\<close> passes
  \<open>original_kept=False\<close> whatever \<open>unlink\<close> did. For \<open>a.heic\<close> converted to
  \<open>jpg\<close> in a read-only directory, with the user choosing to delete, the removal fails
  and is logged as an Error record, no file is removed, and the Success record that
  follows reports the original as deleted.
\<close>

theorem failed_unlink_logged_as_deleted:
  "map_option logger
     (process_file read_only_world photo_a (ProgressScreen_init [photo_a] ''jpg'')) =
     Some [SessionStart,
           LogError photo_a (OSError ''[Errno 13] Permission denied''),
           LogConversion photo_a (get_output_path photo_a ''jpg'') False] \<and>
   map_option removed_files
     (process_file read_only_world photo_a (ProgressScreen_init [photo_a] ''jpg'')) = Some []"
  by code_simp

end
